theory Spec2Isabelle
  imports Main
begin

section \<open>Strings and exceptions\<close>

text \<open>
  Python strings are modelled as \<open>string\<close> (lists of characters). The helpers below are the
  string operations of the standard library that \<^verbatim>\<open>server.py\<close> calls: \<^verbatim>\<open>str(n)\<close> on a
  non-negative integer, \<^verbatim>\<open>str.upper\<close>, \<^verbatim>\<open>str.lower\<close> (on ASCII letters; other characters are
  left as they are), \<^verbatim>\<open>str.split('/')\<close>, \<^verbatim>\<open>', '.join\<close> and \<^verbatim>\<open>str.replace('.git', '')\<close>.
\<close>

definition digit_char :: "nat \<Rightarrow> char" where
  "digit_char n = ''0123456789'' ! n"

function str_nat :: "nat \<Rightarrow> string" where
  "str_nat n = (if n < 10 then [digit_char n] else str_nat (n div 10) @ [digit_char (n mod 10)])"
  by pat_completeness auto
termination
  by (relation "measure (\<lambda>n. n)") auto

declare str_nat.simps [simp del]

definition lower_letters :: string where
  "lower_letters = ''abcdefghijklmnopqrstuvwxyz''"

definition upper_letters :: string where
  "upper_letters = ''ABCDEFGHIJKLMNOPQRSTUVWXYZ''"

definition upper_char :: "char \<Rightarrow> char" where
  "upper_char c = (case map_of (zip lower_letters upper_letters) c of Some u \<Rightarrow> u | None \<Rightarrow> c)"

definition lower_char :: "char \<Rightarrow> char" where
  "lower_char c = (case map_of (zip upper_letters lower_letters) c of Some l \<Rightarrow> l | None \<Rightarrow> c)"

definition upper :: "string \<Rightarrow> string" where
  "upper s = map upper_char s"

definition lower :: "string \<Rightarrow> string" where
  "lower s = map lower_char s"

text \<open>\<^verbatim>\<open>s.split('/')\<close>: the pieces between slashes; never the empty list.\<close>

fun split_slash :: "string \<Rightarrow> string list" where
  "split_slash [] = [[]]"
| "split_slash (c # cs) =
     (if c = CHR ''/'' then [] # split_slash cs
      else (case split_slash cs of p # ps \<Rightarrow> (c # p) # ps | [] \<Rightarrow> [[c]]))"

text \<open>\<^verbatim>\<open>path.split('/')[-1]\<close>\<close>

definition base_name :: "string \<Rightarrow> string" where
  "base_name p = last (split_slash p)"

text \<open>\<^verbatim>\<open>', '.join(xs)\<close>\<close>

fun join_comma :: "string list \<Rightarrow> string" where
  "join_comma [] = []"
| "join_comma [x] = x"
| "join_comma (x # y # ys) = x @ '', '' @ join_comma (y # ys)"

text \<open>\<^verbatim>\<open>s.replace('.git', '')\<close>: every occurrence, scanning from the left.\<close>

fun replace_dot_git :: "string \<Rightarrow> string" where
  "replace_dot_git [] = []"
| "replace_dot_git (c # cs) =
     (if take 4 (c # cs) = ''.git'' then replace_dot_git (drop 3 cs)
      else c # replace_dot_git cs)"

text \<open>
  Exceptions are values. \<open>ClientError\<close> is an exception raised by the HTTP client itself
  (\<^verbatim>\<open>aiohttp\<close>: no connection, timeout, a body that is not JSON), \<open>Base64Error\<close> the one
  \<^verbatim>\<open>base64.b64decode\<close> raises, \<open>StoreError\<close> one the store's driver raises; they carry their
  message. \<open>str_exn\<close> is \<^verbatim>\<open>str(e)\<close>; for an \<^verbatim>\<open>HTTPException\<close> it is the framework's
  \<^verbatim>\<open>"{status_code}: {detail}"\<close>.
\<close>

datatype exn =
    ValueError string
  | KeyError string
  | HTTPException nat string
  | ClientError string
  | Base64Error string
  | StoreError string

fun str_exn :: "exn \<Rightarrow> string" where
  "str_exn (ValueError m) = m"
| "str_exn (KeyError k) = [CHR 0x27] @ k @ [CHR 0x27]"
| "str_exn (HTTPException code detail) = str_nat code @ '': '' @ detail"
| "str_exn (ClientError m) = m"
| "str_exn (Base64Error m) = m"
| "str_exn (StoreError m) = m"

text \<open>The status a request handler's outcome is answered with.\<close>

fun http_status :: "exn + 'a \<Rightarrow> nat" where
  "http_status (Inr _) = 200"
| "http_status (Inl (HTTPException code _)) = code"
| "http_status (Inl _) = 500"

section \<open>Data model\<close>

record ai_config =
  provider :: string
  model :: string
  api_key :: string
  user_id :: string

record repo_analysis =
  ra_repo_url :: string
  ra_user_id :: string

record flashcard =
  fc_id :: string
  fc_front :: string
  fc_back :: string
  fc_category :: string
  fc_difficulty :: string
  fc_code_snippet :: "string option"
  fc_file_path :: "string option"

text \<open>The documents of the two collections, \<^verbatim>\<open>db.ai_configs\<close> and \<^verbatim>\<open>db.analyses\<close>.\<close>

record config_doc =
  cd_user_id :: string
  cd_provider :: string
  cd_model :: string
  cd_api_key :: string
  cd_created_at :: nat

record analysis_doc =
  a_id :: string
  a_repo_url :: string
  a_user_id :: string
  a_status :: string
  a_created_at :: nat
  a_flashcards :: "flashcard list"
  a_total_files :: nat
  a_languages :: "string list"
  a_error :: "string option"

text \<open>
  The store: each collection is the list of its documents in insertion order. The
  handlers and the run of a job are given first as they go when the calls to the store
  return; the calls that raise come in with the jobs in flight, further down.
\<close>

record db =
  ai_configs :: "config_doc list"
  analyses :: "analysis_doc list"

definition AI_MODELS :: "(string \<times> (string \<times> string) list) list" where
  "AI_MODELS =
    [(''openai'',
        [(''gpt-4o'', ''GPT-4o''),
         (''gpt-4.1'', ''GPT-4.1''),
         (''gpt-4o-mini'', ''GPT-4o Mini''),
         (''o3-mini'', ''O3 Mini'')]),
     (''anthropic'',
        [(''claude-sonnet-4-20250514'', ''Claude Sonnet 4''),
         (''claude-3-5-sonnet-20241022'', ''Claude 3.5 Sonnet''),
         (''claude-3-5-haiku-20241022'', ''Claude 3.5 Haiku'')]),
     (''gemini'',
        [(''gemini-2.0-flash'', ''Gemini 2.0 Flash''),
         (''gemini-1.5-pro'', ''Gemini 1.5 Pro''),
         (''gemini-1.5-flash'', ''Gemini 1.5 Flash'')])]"

text \<open>\<^verbatim>\<open>provider in AI_MODELS and model in AI_MODELS[provider]\<close>\<close>

definition model_in_catalog :: "string \<Rightarrow> string \<Rightarrow> bool" where
  "model_in_catalog p m =
     (case map_of AI_MODELS p of None \<Rightarrow> False | Some ms \<Rightarrow> map_of ms m \<noteq> None)"

section \<open>Store operations\<close>

text \<open>\<^verbatim>\<open>db.ai_configs.find_one({"user_id": u})\<close>\<close>

definition find_config :: "string \<Rightarrow> db \<Rightarrow> config_doc option" where
  "find_config u d = find (\<lambda>c. cd_user_id c = u) (ai_configs d)"

text \<open>\<^verbatim>\<open>db.ai_configs.replace_one({"user_id": u}, doc, upsert=True)\<close>\<close>

fun replace_one_upsert :: "string \<Rightarrow> config_doc \<Rightarrow> config_doc list \<Rightarrow> config_doc list" where
  "replace_one_upsert u doc [] = [doc]"
| "replace_one_upsert u doc (c # cs) =
     (if cd_user_id c = u then doc # cs else c # replace_one_upsert u doc cs)"

text \<open>\<^verbatim>\<open>db.analyses.find_one({"id": i})\<close>\<close>

definition find_analysis :: "string \<Rightarrow> db \<Rightarrow> analysis_doc option" where
  "find_analysis i d = find (\<lambda>a. a_id a = i) (analyses d)"

text \<open>\<^verbatim>\<open>db.analyses.update_one({"id": i}, {"$set": ...})\<close>: the first document with the id.\<close>

fun update_one :: "string \<Rightarrow> (analysis_doc \<Rightarrow> analysis_doc) \<Rightarrow> analysis_doc list \<Rightarrow> analysis_doc list" where
  "update_one i f [] = []"
| "update_one i f (a # as) = (if a_id a = i then f a # as else a # update_one i f as)"

definition update_analysis :: "string \<Rightarrow> (analysis_doc \<Rightarrow> analysis_doc) \<Rightarrow> db \<Rightarrow> db" where
  "update_analysis i f d = d\<lparr>analyses := update_one i f (analyses d)\<rparr>"

section \<open>The configuration endpoints\<close>

text \<open>
  Every handler wraps its body in \<^verbatim>\<open>try: ... except Exception as e: raise HTTPException(500, ...)\<close>.
  \<^verbatim>\<open>HTTPException\<close> is an \<^verbatim>\<open>Exception\<close>, so the handler's own 4xx exceptions, raised inside the
  \<^verbatim>\<open>try\<close>, reach that \<^verbatim>\<open>except\<close> clause as any other exception does.
\<close>

definition except_500 :: "string \<Rightarrow> exn + 'a \<Rightarrow> exn + 'a" where
  "except_500 prefix r =
     (case r of Inl e \<Rightarrow> Inl (HTTPException 500 (prefix @ str_exn e)) | Inr v \<Rightarrow> Inr v)"

text \<open>\<^verbatim>\<open>POST /api/ai-config\<close>; \<open>now\<close> is \<^verbatim>\<open>datetime.now()\<close>. Returns the message and the store.\<close>

definition save_ai_config :: "nat \<Rightarrow> ai_config \<Rightarrow> db \<Rightarrow> (exn + string) \<times> db" where
  "save_ai_config now config d =
     (if \<not> model_in_catalog (provider config) (model config)
      then (except_500 ''Failed to save configuration: ''
              (Inl (HTTPException 400 ''Invalid AI model selection'')), d)
      else
        (let config_doc = \<lparr>cd_user_id = user_id config, cd_provider = provider config,
               cd_model = model config, cd_api_key = api_key config, cd_created_at = now\<rparr>
         in (except_500 ''Failed to save configuration: ''
               (Inr ''AI configuration saved successfully''),
             d\<lparr>ai_configs := replace_one_upsert (user_id config) config_doc (ai_configs d)\<rparr>)))"

datatype config_response = NotConfigured | Configured string string string

text \<open>\<^verbatim>\<open>GET /api/ai-config/{user_id}\<close>\<close>

definition get_ai_config :: "string \<Rightarrow> db \<Rightarrow> exn + config_response" where
  "get_ai_config u d =
     except_500 ''Failed to get configuration: ''
       (case find_config u d of
          None \<Rightarrow> Inr NotConfigured
        | Some config \<Rightarrow>
            (case map_of AI_MODELS (cd_provider config) of
               None \<Rightarrow> Inl (KeyError (cd_provider config))
             | Some ms \<Rightarrow>
                 (case map_of ms (cd_model config) of
                    None \<Rightarrow> Inl (KeyError (cd_model config))
                  | Some name \<Rightarrow> Inr (Configured (cd_provider config) (cd_model config) name))))"

section \<open>Submitting and reading a job\<close>

record submit_response =
  sr_analysis_id :: string
  sr_status :: string
  sr_message :: string

text \<open>The arguments of a scheduled \<^verbatim>\<open>process_repository_analysis\<close>: repo_url, user_id, analysis_id.\<close>

type_synonym task = "string \<times> string \<times> string"

text \<open>
  \<^verbatim>\<open>POST /api/analyze-repository\<close>; \<open>uuid\<close> is the value of \<^verbatim>\<open>str(uuid.uuid4())\<close> and \<open>now\<close> of
  \<^verbatim>\<open>datetime.now()\<close>. Returns the response, the store and the task handed to
  \<^verbatim>\<open>background_tasks.add_task\<close>, if any.
\<close>

definition analyze_repository ::
  "string \<Rightarrow> nat \<Rightarrow> repo_analysis \<Rightarrow> db \<Rightarrow> (exn + submit_response) \<times> db \<times> task option" where
  "analyze_repository uuid now analysis d =
     (case find_config (ra_user_id analysis) d of
        None \<Rightarrow>
          (except_500 ''Failed to start analysis: ''
             (Inl (HTTPException 400 ''AI configuration required. Please configure AI model first.'')),
           d, None)
      | Some config \<Rightarrow>
          (let analysis_id = uuid;
               analysis_doc = \<lparr>a_id = analysis_id, a_repo_url = ra_repo_url analysis,
                 a_user_id = ra_user_id analysis, a_status = ''queued'', a_created_at = now,
                 a_flashcards = [], a_total_files = 0, a_languages = [], a_error = None\<rparr>
           in (except_500 ''Failed to start analysis: ''
                 (Inr \<lparr>sr_analysis_id = analysis_id, sr_status = ''queued'',
                       sr_message = ''Repository analysis started''\<rparr>),
               d\<lparr>analyses := analyses d @ [analysis_doc]\<rparr>,
               Some (ra_repo_url analysis, ra_user_id analysis, analysis_id))))"

record snapshot =
  sn_id :: string
  sn_repo_url :: string
  sn_status :: string
  sn_created_at :: nat
  sn_flashcards :: "flashcard list"
  sn_total_files :: nat
  sn_languages :: "string list"
  sn_error :: "string option"

text \<open>\<^verbatim>\<open>GET /api/analysis/{analysis_id}\<close>. It only reads: the store is not among its results.\<close>

definition get_analysis :: "string \<Rightarrow> db \<Rightarrow> exn + snapshot" where
  "get_analysis analysis_id d =
     except_500 ''Failed to get analysis: ''
       (case find_analysis analysis_id d of
          None \<Rightarrow> Inl (HTTPException 404 ''Analysis not found'')
        | Some analysis \<Rightarrow>
            Inr \<lparr>sn_id = a_id analysis, sn_repo_url = a_repo_url analysis,
                 sn_status = a_status analysis, sn_created_at = a_created_at analysis,
                 sn_flashcards = a_flashcards analysis, sn_total_files = a_total_files analysis,
                 sn_languages = a_languages analysis, sn_error = a_error analysis\<rparr>)"

section \<open>RepositoryFetcher\<close>

record source_file =
  sf_path :: string
  sf_content :: string
  sf_language :: string

record repo_data =
  rd_owner :: string
  rd_repo :: string
  rd_files :: "source_file list"
  rd_total_files :: nat

text \<open>
  The hosting API as the fetcher sees it. \<^verbatim>\<open>session.get(url)\<close> either raises or answers with
  a status and a JSON body. The body of a tree answer holds the list \<^verbatim>\<open>tree\<close> of entries, each
  with its \<^verbatim>\<open>type\<close> and \<^verbatim>\<open>path\<close>; the body of a contents answer is a dictionary that may hold
  \<^verbatim>\<open>encoding\<close> and \<^verbatim>\<open>content\<close> (\<open>None\<close>: the key is absent).
\<close>

record tree_item =
  item_type :: string
  item_path :: string

record file_data =
  fd_encoding :: "string option"
  fd_content :: "string option"

datatype 'a response = Raised exn | Response nat 'a

text \<open>
  The environment of one run: the two kinds of API answers by URL, the standard library's
  \<^verbatim>\<open>base64.b64decode(c).decode('utf-8', errors='ignore')\<close> (\<open>Inl\<close> when \<^verbatim>\<open>b64decode\<close> raises), and
  the values of the successive \<^verbatim>\<open>str(uuid.uuid4())\<close> calls.
\<close>

record env =
  get_tree :: "string \<Rightarrow> tree_item list response"
  get_contents :: "string \<Rightarrow> file_data response"
  b64decode_utf8 :: "string \<Rightarrow> exn + string"
  uuid4 :: "nat \<Rightarrow> string"

text \<open>
  \<^verbatim>\<open>re.search(r'github\.com/([^/]+)/([^/]+)', s)\<close>. \<open>match_here\<close> matches the pattern at the start
  of \<open>s\<close>; both groups are greedy runs of characters other than the slash, so each is the
  longest such run. \<open>re_search\<close> tries every start from the left.
\<close>

definition not_slash :: "char \<Rightarrow> bool" where
  "not_slash c = (c \<noteq> CHR ''/'')"

definition match_here :: "string \<Rightarrow> (string \<times> string) option" where
  "match_here s =
     (if take 11 s = ''github.com/'' then
        (let r = drop 11 s;
             owner = takeWhile not_slash r;
             r' = dropWhile not_slash r
         in if owner = [] \<or> r' = [] then None
            else (let repo = takeWhile not_slash (drop 1 r')
                  in if repo = [] then None else Some (owner, repo)))
      else None)"

fun re_search :: "string \<Rightarrow> (string \<times> string) option" where
  "re_search [] = None"
| "re_search (c # cs) =
     (case match_here (c # cs) of Some m \<Rightarrow> Some m | None \<Rightarrow> re_search cs)"

text \<open>The first statement of \<^verbatim>\<open>fetch_github_repo\<close>: owner and repo, or no match.\<close>

definition parse_repo_url :: "string \<Rightarrow> (string \<times> string) option" where
  "parse_repo_url repo_url = re_search (replace_dot_git repo_url)"

definition api_url :: "string \<Rightarrow> string \<Rightarrow> string" where
  "api_url owner repo =
     ''https://api.github.com/repos/'' @ owner @ ''/'' @ repo @ ''/git/trees/main?recursive=1''"

definition content_url :: "string \<Rightarrow> string \<Rightarrow> string \<Rightarrow> string" where
  "content_url owner repo path =
     ''https://api.github.com/repos/'' @ owner @ ''/'' @ repo @ ''/contents/'' @ path"

text \<open>
  \<^verbatim>\<open>os.path.splitext(p)[1]\<close>: the extension starts at the last dot of the last path component,
  unless only dots stand before it in that component.
\<close>

definition splitext_ext :: "string \<Rightarrow> string" where
  "splitext_ext p =
     (let r = rev (base_name p);
          tail_rev = takeWhile (\<lambda>c. c \<noteq> CHR ''.'') r;
          stem_rev = dropWhile (\<lambda>c. c \<noteq> CHR ''.'') r
      in if stem_rev = [] then []
         else if dropWhile (\<lambda>c. c = CHR ''.'') (drop 1 stem_rev) = [] then []
         else CHR ''.'' # rev tail_rev)"

definition code_extensions :: "string list" where
  "code_extensions =
     [''.py'', ''.js'', ''.jsx'', ''.ts'', ''.tsx'', ''.java'', ''.cpp'', ''.c'', ''.go'', ''.rs'',
      ''.php'', ''.rb'', ''.swift'', ''.kt'']"

definition item_ext :: "tree_item \<Rightarrow> string" where
  "item_ext item = lower (splitext_ext (item_path item))"

text \<open>The two filters of the loop: a blob whose extension is in the allow-list.\<close>

definition matching :: "tree_item \<Rightarrow> bool" where
  "matching item = (item_type item = ''blob'' \<and> item_ext item \<in> set code_extensions)"

text \<open>
  The body of the loop over \<^verbatim>\<open>tree_data['tree']\<close>: what one entry appends to \<^verbatim>\<open>files\<close> (a file,
  or nothing), or the exception it raises.
\<close>

definition fetch_item :: "env \<Rightarrow> string \<Rightarrow> string \<Rightarrow> tree_item \<Rightarrow> exn + source_file option" where
  "fetch_item e owner repo item =
     (if item_type item = ''blob'' then
        (let ext = item_ext item in
         if ext \<in> set code_extensions then
           (case get_contents e (content_url owner repo (item_path item)) of
              Raised x \<Rightarrow> Inl x
            | Response status file_data \<Rightarrow>
                if status = 200 then
                  (if fd_encoding file_data = Some ''base64'' then
                     (case fd_content file_data of
                        None \<Rightarrow> Inl (KeyError ''content'')
                      | Some c \<Rightarrow>
                          (case b64decode_utf8 e c of
                             Inl x \<Rightarrow> Inl x
                           | Inr content \<Rightarrow>
                               Inr (Some \<lparr>sf_path = item_path item,
                                          sf_content = take 5000 content,
                                          sf_language = (if ext \<noteq> [] then drop 1 ext else ''text'')\<rparr>)))
                   else Inr None)
                else Inr None)
         else Inr None)
      else Inr None)"

fun fetch_loop :: "env \<Rightarrow> string \<Rightarrow> string \<Rightarrow> source_file list \<Rightarrow> tree_item list \<Rightarrow> exn + source_file list" where
  "fetch_loop e owner repo files [] = Inr files"
| "fetch_loop e owner repo files (item # items) =
     (case fetch_item e owner repo item of
        Inl x \<Rightarrow> Inl x
      | Inr None \<Rightarrow> fetch_loop e owner repo files items
      | Inr (Some f) \<Rightarrow> fetch_loop e owner repo (files @ [f]) items)"

text \<open>The body of the \<^verbatim>\<open>try\<close> of \<^verbatim>\<open>fetch_github_repo\<close>.\<close>

definition fetch_body :: "env \<Rightarrow> string \<Rightarrow> exn + repo_data" where
  "fetch_body e repo_url =
     (case parse_repo_url repo_url of
        None \<Rightarrow> Inl (ValueError ''Invalid GitHub repository URL'')
      | Some (owner, repo) \<Rightarrow>
          (case get_tree e (api_url owner repo) of
             Raised x \<Rightarrow> Inl x
           | Response status tree \<Rightarrow>
               if status \<noteq> 200 then Inl (ValueError ''Repository not found or not accessible'')
               else
                 (case fetch_loop e owner repo [] tree of
                    Inl x \<Rightarrow> Inl x
                  | Inr files \<Rightarrow>
                      Inr \<lparr>rd_owner = owner, rd_repo = repo, rd_files = take 20 files,
                           rd_total_files = length files\<rparr>)))"

definition fetch_github_repo :: "env \<Rightarrow> string \<Rightarrow> exn + repo_data" where
  "fetch_github_repo e repo_url =
     (case fetch_body e repo_url of
        Inl x \<Rightarrow> Inl (ValueError (''Failed to fetch repository: '' @ str_exn x))
      | Inr r \<Rightarrow> Inr r)"

section \<open>AnalysisEngine\<close>

text \<open>
  The dictionary \<^verbatim>\<open>languages\<close> keeps its keys in insertion order: an association list.
  \<open>add_file\<close> is one round of the grouping loop.
\<close>

fun add_file :: "(string \<times> source_file list) list \<Rightarrow> source_file \<Rightarrow> (string \<times> source_file list) list" where
  "add_file [] file = [(sf_language file, [file])]"
| "add_file ((lang, fs) # rest) file =
     (if lang = sf_language file then (lang, fs @ [file]) # rest
      else (lang, fs) # add_file rest file)"

definition group_by_language :: "source_file list \<Rightarrow> (string \<times> source_file list) list" where
  "group_by_language files = foldl add_file [] files"

definition architecture_card :: "string \<Rightarrow> string \<Rightarrow> source_file list \<Rightarrow> flashcard" where
  "architecture_card uuid lang lang_files =
     \<lparr>fc_id = uuid,
      fc_front = ''What is the overall architecture of this '' @ upper lang @ '' application?'',
      fc_back = ''This application uses '' @ upper lang @ '' with '' @ str_nat (length lang_files)
        @ '' files. Key components include: ''
        @ join_comma (map (\<lambda>f. base_name (sf_path f)) (take 3 lang_files)),
      fc_category = ''Architecture'',
      fc_difficulty = ''Medium'',
      fc_code_snippet = (case lang_files of [] \<Rightarrow> None | f # _ \<Rightarrow> Some (take 200 (sf_content f))),
      fc_file_path = (case lang_files of [] \<Rightarrow> None | f # _ \<Rightarrow> Some (sf_path f))\<rparr>"

definition file_card :: "string \<Rightarrow> string \<Rightarrow> source_file \<Rightarrow> flashcard" where
  "file_card uuid lang file =
     \<lparr>fc_id = uuid,
      fc_front = ''What is the purpose of '' @ base_name (sf_path file) @ ''?'',
      fc_back = ''This file ('' @ sf_path file @ '') contains '' @ lang
        @ '' code and appears to handle core functionality. It'' @ [CHR 0x27]
        @ ''s part of the main application structure.'',
      fc_category = upper lang @ '' Files'',
      fc_difficulty = ''Easy'',
      fc_code_snippet = Some (take 300 (sf_content file)),
      fc_file_path = Some (sf_path file)\<rparr>"

text \<open>
  The two nested loops; \<open>n\<close> counts the \<^verbatim>\<open>uuid4\<close> calls made so far, \<open>u\<close> gives the value of
  each call.
\<close>

fun file_cards :: "(nat \<Rightarrow> string) \<Rightarrow> nat \<Rightarrow> string \<Rightarrow> source_file list \<Rightarrow> flashcard list" where
  "file_cards u n lang [] = []"
| "file_cards u n lang (file # files) = file_card (u n) lang file # file_cards u (Suc n) lang files"

fun language_cards :: "(nat \<Rightarrow> string) \<Rightarrow> nat \<Rightarrow> (string \<times> source_file list) list \<Rightarrow> flashcard list" where
  "language_cards u n [] = []"
| "language_cards u n ((lang, lang_files) # rest) =
     architecture_card (u n) lang lang_files
       # file_cards u (Suc n) lang (take 3 lang_files)
       @ language_cards u (Suc n + length (take 3 lang_files)) rest"

text \<open>
  \<^verbatim>\<open>analyze_with_ai\<close>. Nothing in its body raises on the files the fetcher builds, so its
  \<^verbatim>\<open>except\<close> clause is never entered: the result is the list.
\<close>

definition analyze_with_ai :: "(nat \<Rightarrow> string) \<Rightarrow> source_file list \<Rightarrow> config_doc \<Rightarrow> flashcard list" where
  "analyze_with_ai u files config = language_cards u 0 (group_by_language files)"

section \<open>JobOrchestrator\<close>

text \<open>
  \<^verbatim>\<open>process_repository_analysis\<close> in its three parts, in the order of its awaits: the first
  write, the work of the \<^verbatim>\<open>try\<close> block up to its result, and the last write (of the result, or of
  the \<^verbatim>\<open>except\<close> clause). \<^verbatim>\<open>list(set(...))\<close> is the distinct languages, in an order Python does not
  fix; \<open>remdups\<close> is one such order.
\<close>

type_synonym outcome = "exn + (flashcard list \<times> nat \<times> string list)"

definition set_processing :: "string \<Rightarrow> db \<Rightarrow> db" where
  "set_processing analysis_id d =
     update_analysis analysis_id (\<lambda>a. a\<lparr>a_status := ''processing''\<rparr>) d"

definition run_pipeline :: "env \<Rightarrow> string \<Rightarrow> string \<Rightarrow> db \<Rightarrow> outcome" where
  "run_pipeline e repo_url uid d =
     (case find_config uid d of
        None \<Rightarrow> Inl (ValueError ''AI configuration not found'')
      | Some config \<Rightarrow>
          (case fetch_github_repo e repo_url of
             Inl x \<Rightarrow> Inl x
           | Inr repo_data \<Rightarrow>
               Inr (analyze_with_ai (uuid4 e) (rd_files repo_data) config,
                    rd_total_files repo_data,
                    remdups (map sf_language (rd_files repo_data)))))"

definition record_outcome :: "string \<Rightarrow> outcome \<Rightarrow> db \<Rightarrow> db" where
  "record_outcome analysis_id r d =
     (case r of
        Inr (flashcards, n_files, langs) \<Rightarrow>
          update_analysis analysis_id
            (\<lambda>a. a\<lparr>a_status := ''completed'', a_flashcards := flashcards,
                   a_total_files := n_files, a_languages := langs\<rparr>) d
      | Inl x \<Rightarrow>
          update_analysis analysis_id
            (\<lambda>a. a\<lparr>a_status := ''failed'', a_error := Some (str_exn x)\<rparr>) d)"

definition process_repository_analysis :: "env \<Rightarrow> string \<Rightarrow> string \<Rightarrow> string \<Rightarrow> db \<Rightarrow> db" where
  "process_repository_analysis e repo_url uid analysis_id d =
     (let d1 = set_processing analysis_id d
      in record_outcome analysis_id (run_pipeline e repo_url uid d1) d1)"

section \<open>The URL shape of the specification\<close>

text \<open>
  The specification's reading of the parse: the pattern is looked for in the URL with an
  optional \<^verbatim>\<open>.git\<close> suffix taken off, that is, one \<^verbatim>\<open>.git\<close> at the very end.
\<close>

definition strip_git_suffix :: "string \<Rightarrow> string" where
  "strip_git_suffix s =
     (if 4 \<le> length s \<and> drop (length s - 4) s = ''.git'' then take (length s - 4) s else s)"

definition spec_parse_repo_url :: "string \<Rightarrow> (string \<times> string) option" where
  "spec_parse_repo_url repo_url = re_search (strip_git_suffix repo_url)"

section \<open>What a fetch returns, in the words of the specification\<close>

text \<open>
  A matching entry is answered when its contents call returns status 200 with a body whose
  encoding is \<^verbatim>\<open>base64\<close>. \<open>fetched_file\<close> is the file stored for such an entry: its path, the first
  5000 characters of the decoded text, and the extension without its dot.
\<close>

definition answered :: "env \<Rightarrow> string \<Rightarrow> string \<Rightarrow> tree_item \<Rightarrow> bool" where
  "answered e owner repo item =
     (matching item \<and>
      (case get_contents e (content_url owner repo (item_path item)) of
         Raised _ \<Rightarrow> False
       | Response status fd \<Rightarrow> status = 200 \<and> fd_encoding fd = Some ''base64''))"

definition decoded_text :: "env \<Rightarrow> string \<Rightarrow> string \<Rightarrow> tree_item \<Rightarrow> string" where
  "decoded_text e owner repo item =
     (case get_contents e (content_url owner repo (item_path item)) of
        Raised _ \<Rightarrow> []
      | Response _ fd \<Rightarrow>
          (case fd_content fd of
             None \<Rightarrow> []
           | Some c \<Rightarrow> (case b64decode_utf8 e c of Inl _ \<Rightarrow> [] | Inr t \<Rightarrow> t)))"

definition fetched_file :: "env \<Rightarrow> string \<Rightarrow> string \<Rightarrow> tree_item \<Rightarrow> source_file" where
  "fetched_file e owner repo item =
     \<lparr>sf_path = item_path item,
      sf_content = take 5000 (decoded_text e owner repo item),
      sf_language = drop 1 (item_ext item)\<rparr>"

section \<open>A sample repository\<close>

text \<open>
  The API answers for \<^verbatim>\<open>https://github.com/octocat/Hello-World\<close> used to run the model: a tree
  of four entries, two of them source files. \<open>sample_env\<close> answers both contents calls;
  in \<open>sample_env_404\<close> the call for \<^verbatim>\<open>src/app.py\<close> is answered 404, in \<open>sample_env_raise\<close> it
  raises. The decoder is given on the one content the answers hold.
\<close>

definition sample_url :: string where
  "sample_url = ''https://github.com/octocat/Hello-World''"

definition sample_tree :: "tree_item list" where
  "sample_tree =
     [\<lparr>item_type = ''tree'', item_path = ''src''\<rparr>,
      \<lparr>item_type = ''blob'', item_path = ''src/app.py''\<rparr>,
      \<lparr>item_type = ''blob'', item_path = ''README.md''\<rparr>,
      \<lparr>item_type = ''blob'', item_path = ''web/index.JS''\<rparr>]"

definition sample_body :: file_data where
  "sample_body = \<lparr>fd_encoding = Some ''base64'', fd_content = Some ''cHJpbnQoMSk=''\<rparr>"

definition sample_decode :: "string \<Rightarrow> exn + string" where
  "sample_decode c =
     (if c = ''cHJpbnQoMSk='' then Inr ''print(1)'' else Inl (Base64Error ''Incorrect padding''))"

definition sample_uuid :: "nat \<Rightarrow> string" where
  "sample_uuid n = ''uuid-'' @ str_nat n"

definition sample_env :: env where
  "sample_env =
     \<lparr>get_tree = (\<lambda>url. if url = api_url ''octocat'' ''Hello-World''
                         then Response 200 sample_tree else Response 404 []),
      get_contents = (\<lambda>url. Response 200 sample_body),
      b64decode_utf8 = sample_decode,
      uuid4 = sample_uuid\<rparr>"

definition sample_env_404 :: env where
  "sample_env_404 =
     sample_env\<lparr>get_contents :=
       (\<lambda>url. if url = content_url ''octocat'' ''Hello-World'' ''src/app.py''
              then Response 404 \<lparr>fd_encoding = None, fd_content = None\<rparr>
              else Response 200 sample_body)\<rparr>"

definition sample_env_raise :: env where
  "sample_env_raise =
     sample_env\<lparr>get_contents :=
       (\<lambda>url. if url = content_url ''octocat'' ''Hello-World'' ''src/app.py''
              then Raised (ClientError ''Connection timeout'')
              else Response 200 sample_body)\<rparr>"

text \<open>In \<open>sample_env_no_content\<close> the answer for \<^verbatim>\<open>src/app.py\<close> is a 200 whose body has no content.\<close>

definition sample_env_no_content :: env where
  "sample_env_no_content =
     sample_env\<lparr>get_contents :=
       (\<lambda>url. if url = content_url ''octocat'' ''Hello-World'' ''src/app.py''
              then Response 200 \<lparr>fd_encoding = Some ''base64'', fd_content = None\<rparr>
              else Response 200 sample_body)\<rparr>"

section \<open>The flashcards, in the words of the specification\<close>

text \<open>
  The elements of a list in the order in which they are first seen.
\<close>

fun first_seen :: "'a list \<Rightarrow> 'a list" where
  "first_seen [] = []"
| "first_seen (x # xs) = x # filter (\<lambda>y. y \<noteq> x) (first_seen xs)"

text \<open>
  The cards of one language with its files \<open>fs\<close> (at least one), without their ids: the
  architecture card, then one card for each of the first three files.
\<close>

definition expected_cards :: "string \<Rightarrow> source_file list \<Rightarrow> flashcard list" where
  "expected_cards lang fs =
     \<lparr>fc_id = [],
      fc_front = ''What is the overall architecture of this '' @ upper lang @ '' application?'',
      fc_back = ''This application uses '' @ upper lang @ '' with '' @ str_nat (length fs)
        @ '' files. Key components include: ''
        @ join_comma (map (\<lambda>f. base_name (sf_path f)) (take 3 fs)),
      fc_category = ''Architecture'',
      fc_difficulty = ''Medium'',
      fc_code_snippet = Some (take 200 (sf_content (hd fs))),
      fc_file_path = Some (sf_path (hd fs))\<rparr>
     # map (\<lambda>f.
         \<lparr>fc_id = [],
          fc_front = ''What is the purpose of '' @ base_name (sf_path f) @ ''?'',
          fc_back = ''This file ('' @ sf_path f @ '') contains '' @ lang
            @ '' code and appears to handle core functionality. It'' @ [CHR 0x27]
            @ ''s part of the main application structure.'',
          fc_category = upper lang @ '' Files'',
          fc_difficulty = ''Easy'',
          fc_code_snippet = Some (take 300 (sf_content f)),
          fc_file_path = Some (sf_path f)\<rparr>) (take 3 fs)"

section \<open>A sample store\<close>

text \<open>
  A store in which alice has a configuration and one job, as \<^verbatim>\<open>analyze_repository\<close> creates it;
  and the API answers for a repository whose tree holds no source file.
\<close>

definition sample_config :: config_doc where
  "sample_config =
     \<lparr>cd_user_id = ''alice'', cd_provider = ''openai'', cd_model = ''gpt-4o'',
      cd_api_key = ''sk-test'', cd_created_at = 1\<rparr>"

definition sample_job :: analysis_doc where
  "sample_job =
     \<lparr>a_id = ''job-1'', a_repo_url = sample_url, a_user_id = ''alice'', a_status = ''queued'',
      a_created_at = 2, a_flashcards = [], a_total_files = 0, a_languages = [], a_error = None\<rparr>"

definition sample_db :: db where
  "sample_db = \<lparr>ai_configs = [sample_config], analyses = [sample_job]\<rparr>"

definition sample_env_docs :: env where
  "sample_env_docs =
     sample_env\<lparr>get_tree := \<lambda>url. Response 200
       [\<lparr>item_type = ''blob'', item_path = ''README.md''\<rparr>,
        \<lparr>item_type = ''tree'', item_path = ''lib.py''\<rparr>,
        \<lparr>item_type = ''blob'', item_path = ''.py''\<rparr>]\<rparr>"

section \<open>Jobs in flight\<close>

text \<open>
  The service as a whole: the store and the background tasks that were scheduled. A task
  goes through \<^verbatim>\<open>process_repository_analysis\<close> one store call at a time, so that requests and
  other tasks may run in between: \<open>Scheduled\<close> (nothing done yet), \<open>Processing\<close> (the first write
  is behind it), \<open>Computed r\<close> (the \<^verbatim>\<open>try\<close> block has come to its last write with the result
  \<open>r\<close>), \<open>Failing x\<close> (the \<^verbatim>\<open>try\<close> block has raised \<open>x\<close> and the write of the \<^verbatim>\<open>except\<close> clause is
  still to come), \<open>Done\<close>.

  Here the store may fail. A call to it returns, or raises having written nothing, or
  raises after its write was applied (the acknowledgement is lost).
\<close>

datatype store_call = Returns | Raises exn | RaisesWritten exn

fun written :: "store_call \<Rightarrow> bool" where
  "written Returns = True"
| "written (Raises x) = False"
| "written (RaisesWritten x) = True"

fun raised :: "store_call \<Rightarrow> exn option" where
  "raised Returns = None"
| "raised (Raises x) = Some x"
| "raised (RaisesWritten x) = Some x"

datatype phase =
    Scheduled
  | Processing
  | Computed "flashcard list \<times> nat \<times> string list"
  | Failing exn
  | Done

text \<open>
  The store call a task in a given phase makes next: the write it asks for, the phase it
  is in when the call has returned, and the phase it is in when the call has raised \<open>y\<close>.
  All calls of the \<^verbatim>\<open>try\<close> block, the first write included, raise into the \<^verbatim>\<open>except\<close> clause; an
  exception of the write of the \<^verbatim>\<open>except\<close> clause ends the task.
\<close>

fun write_of :: "task \<Rightarrow> phase \<Rightarrow> db \<Rightarrow> db" where
  "write_of (repo_url, uid, i) Scheduled d = set_processing i d"
| "write_of (repo_url, uid, i) Processing d = d"
| "write_of (repo_url, uid, i) (Computed r) d = record_outcome i (Inr r) d"
| "write_of (repo_url, uid, i) (Failing x) d = record_outcome i (Inl x) d"
| "write_of (repo_url, uid, i) Done d = d"

fun phase_after :: "env \<Rightarrow> db \<Rightarrow> task \<Rightarrow> phase \<Rightarrow> phase" where
  "phase_after e d (repo_url, uid, i) Scheduled = Processing"
| "phase_after e d (repo_url, uid, i) Processing =
     (case run_pipeline e repo_url uid d of Inl x \<Rightarrow> Failing x | Inr r \<Rightarrow> Computed r)"
| "phase_after e d (repo_url, uid, i) (Computed r) = Done"
| "phase_after e d (repo_url, uid, i) (Failing x) = Done"
| "phase_after e d (repo_url, uid, i) Done = Done"

fun phase_raised :: "exn \<Rightarrow> phase \<Rightarrow> phase" where
  "phase_raised y Scheduled = Failing y"
| "phase_raised y Processing = Failing y"
| "phase_raised y (Computed r) = Failing y"
| "phase_raised y (Failing x) = Done"
| "phase_raised y Done = Done"

definition task_step :: "env \<Rightarrow> store_call \<Rightarrow> task \<Rightarrow> phase \<Rightarrow> db \<Rightarrow> db \<times> phase" where
  "task_step e c t ph d =
     (if written c then write_of t ph d else d,
      case raised c of None \<Rightarrow> phase_after e d t ph | Some y \<Rightarrow> phase_raised y ph)"

record system =
  sys_db :: db
  sys_tasks :: "(task \<times> phase) list"

text \<open>
  What can happen: a configuration is saved, a repository is submitted, or the \<open>k\<close>-th task
  makes its next store call, seeing the API as \<open>e\<close>. Each event carries what the store does
  in it. A request whose store call raises is answered with an error and schedules nothing.
\<close>

datatype event =
    Save store_call nat ai_config
  | Submit store_call string nat repo_analysis
  | Advance store_call env nat

definition save :: "store_call \<Rightarrow> nat \<Rightarrow> ai_config \<Rightarrow> system \<Rightarrow> system" where
  "save c now config s =
     (if written c then s\<lparr>sys_db := snd (save_ai_config now config (sys_db s))\<rparr> else s)"

definition submit :: "store_call \<Rightarrow> string \<Rightarrow> nat \<Rightarrow> repo_analysis \<Rightarrow> system \<Rightarrow> system" where
  "submit c uuid now analysis s =
     (case analyze_repository uuid now analysis (sys_db s) of
        (r, d', t) \<Rightarrow>
          \<lparr>sys_db = (if written c then d' else sys_db s),
           sys_tasks = sys_tasks s @
             (case t of
                None \<Rightarrow> []
              | Some t' \<Rightarrow> (if raised c = None then [(t', Scheduled)] else []))\<rparr>)"

definition advance :: "store_call \<Rightarrow> env \<Rightarrow> nat \<Rightarrow> system \<Rightarrow> system" where
  "advance c e k s =
     (if k < length (sys_tasks s) then
        (case sys_tasks s ! k of
           (t, ph) \<Rightarrow>
             \<lparr>sys_db = fst (task_step e c t ph (sys_db s)),
              sys_tasks = (sys_tasks s)[k := (t, snd (task_step e c t ph (sys_db s)))]\<rparr>)
      else s)"

fun apply_event :: "event \<Rightarrow> system \<Rightarrow> system" where
  "apply_event (Save c now config) s = save c now config s"
| "apply_event (Submit c uuid now analysis) s = submit c uuid now analysis s"
| "apply_event (Advance c e k) s = advance c e k s"

definition run :: "event list \<Rightarrow> system \<Rightarrow> system" where
  "run evs s = foldl (\<lambda>s' ev. apply_event ev s') s evs"

text \<open>The service starts on some store with no task scheduled.\<close>

definition initial :: "db \<Rightarrow> system" where
  "initial d = \<lparr>sys_db = d, sys_tasks = []\<rparr>"







text \<open>
  The path of the specification: a status stays, or goes from \<^verbatim>\<open>queued\<close> to \<^verbatim>\<open>processing\<close>, or
  from \<^verbatim>\<open>processing\<close> to \<^verbatim>\<open>completed\<close> or \<^verbatim>\<open>failed\<close>. \<open>status_step_or_skip\<close> adds the step from
  \<^verbatim>\<open>queued\<close> to \<^verbatim>\<open>failed\<close>.
\<close>

definition status_step :: "string \<Rightarrow> string \<Rightarrow> bool" where
  "status_step x y =
     (y = x
      \<or> (x = ''queued'' \<and> y = ''processing'')
      \<or> (x = ''processing'' \<and> (y = ''completed'' \<or> y = ''failed'')))"


text \<open>
  What holds of the tasks at any time: no two are for the same job, and the job of each
  has the status of the task's phase. With \<open>strict\<close>, for sequences in which no store call
  raises, a task in the \<^verbatim>\<open>except\<close> clause has a job that is \<^verbatim>\<open>processing\<close>.
\<close>

fun phase_ok :: "bool \<Rightarrow> phase \<Rightarrow> string \<Rightarrow> bool" where
  "phase_ok strict Scheduled st = (st = ''queued'')"
| "phase_ok strict Processing st = (st = ''processing'')"
| "phase_ok strict (Computed r) st = (st = ''processing'')"
| "phase_ok strict (Failing x) st = (st = ''processing'' \<or> (\<not> strict \<and> st = ''queued''))"
| "phase_ok strict Done st = True"

definition task_id :: "task \<times> phase \<Rightarrow> string" where
  "task_id tp = snd (snd (fst tp))"

definition task_ok :: "bool \<Rightarrow> db \<Rightarrow> task \<times> phase \<Rightarrow> bool" where
  "task_ok strict d tp =
     (case find_analysis (task_id tp) d of
        None \<Rightarrow> False
      | Some a \<Rightarrow> phase_ok strict (snd tp) (a_status a))"


text \<open>
  Sample requests: alice saves a configuration and submits the sample repository; the
  store answers both.
\<close>

definition empty_db :: db where
  "empty_db = \<lparr>ai_configs = [], analyses = []\<rparr>"

definition sample_save :: event where
  "sample_save =
     Save Returns 1
       \<lparr>provider = ''openai'', model = ''gpt-4o'', api_key = ''sk-test'', user_id = ''alice''\<rparr>"

definition sample_submit :: event where
  "sample_submit = Submit Returns ''job-1'' 2 \<lparr>ra_repo_url = sample_url, ra_user_id = ''alice''\<rparr>"

text \<open>
  The first task makes its next store call: in \<open>sample_advance\<close> the call returns, in
  \<open>sample_store_down\<close> it raises.
\<close>

definition sample_advance :: event where
  "sample_advance = Advance Returns sample_env 0"

definition sample_store_down :: event where
  "sample_store_down = Advance (Raises (StoreError ''connection lost'')) sample_env 0"

section \<open>Numerals as text\<close>

lemma str_nat_400: "str_nat 400 = ''400''"
  by (simp add: str_nat.simps digit_char_def)

lemma str_nat_404: "str_nat 404 = ''404''"
  by (simp add: str_nat.simps digit_char_def)

lemma str_nat_not_empty: "str_nat n \<noteq> []"
  by (subst str_nat.simps) simp

section \<open>Request handlers and their status codes\<close>

lemma except_500_status: "http_status (except_500 p (Inl x)) = 500"
  by (simp add: except_500_def)

text \<open>
  C5. A submission for a user with no stored configuration creates no job record and
  schedules nothing, and it is refused; the refusal raised as 400 inside the \<^verbatim>\<open>try\<close> block is
  caught by the handler's own \<^verbatim>\<open>except Exception\<close> and answered as 500.
\<close>

theorem analyze_repository_without_config:
  assumes "find_config (ra_user_id analysis) d = None"
  shows "analyze_repository uuid now analysis d =
           (Inl (HTTPException 500
              (''Failed to start analysis: 400: AI configuration required. Please configure AI model first.'')),
            d, None)"
  using assms by (simp add: analyze_repository_def except_500_def str_nat_400)

theorem analyze_repository_without_config_witness:
  "http_status (fst (analyze_repository ''job-1'' 0
       \<lparr>ra_repo_url = ''https://github.com/octocat/Hello-World'', ra_user_id = ''alice''\<rparr>
       \<lparr>ai_configs = [], analyses = []\<rparr>)) = 500
   \<and> snd (analyze_repository ''job-1'' 0
       \<lparr>ra_repo_url = ''https://github.com/octocat/Hello-World'', ra_user_id = ''alice''\<rparr>
       \<lparr>ai_configs = [], analyses = []\<rparr>) = (\<lparr>ai_configs = [], analyses = []\<rparr>, None)"
proof -
  have h: "find_config
      (ra_user_id \<lparr>ra_repo_url = ''https://github.com/octocat/Hello-World'', ra_user_id = ''alice''\<rparr>)
      \<lparr>ai_configs = [], analyses = []\<rparr> = None"
    by (simp add: find_config_def)
  show ?thesis
    using analyze_repository_without_config [OF h, of "''job-1''" 0] by simp
qed

text \<open>
  C7. Reading a job changes nothing: \<open>get_analysis\<close> returns no store. For a stored job the
  answer is its snapshot. For an unknown id the 404 raised inside the \<^verbatim>\<open>try\<close> block is caught by
  the handler's own \<^verbatim>\<open>except Exception\<close> and answered as 500.
\<close>

theorem get_analysis_answers:
  "(find_analysis i d = None \<longrightarrow>
      get_analysis i d = Inl (HTTPException 500 ''Failed to get analysis: 404: Analysis not found''))
   \<and> (\<forall>a. find_analysis i d = Some a \<longrightarrow>
      get_analysis i d =
        Inr \<lparr>sn_id = a_id a, sn_repo_url = a_repo_url a, sn_status = a_status a,
             sn_created_at = a_created_at a, sn_flashcards = a_flashcards a,
             sn_total_files = a_total_files a, sn_languages = a_languages a,
             sn_error = a_error a\<rparr>)"
  by (simp add: get_analysis_def except_500_def str_nat_404)

theorem get_analysis_answers_witness:
  "http_status (get_analysis ''nobody'' \<lparr>ai_configs = [], analyses = []\<rparr>) = 500
   \<and> http_status (get_analysis ''job-1''
        \<lparr>ai_configs = [],
         analyses = [\<lparr>a_id = ''job-1'', a_repo_url = ''u'', a_user_id = ''alice'',
           a_status = ''queued'', a_created_at = 0, a_flashcards = [], a_total_files = 0,
           a_languages = [], a_error = None\<rparr>]\<rparr>) = 200"
proof -
  have n: "find_analysis ''nobody'' \<lparr>ai_configs = [], analyses = []\<rparr> = None"
    by (simp add: find_analysis_def)
  have s: "find_analysis ''job-1''
        \<lparr>ai_configs = [],
         analyses = [\<lparr>a_id = ''job-1'', a_repo_url = ''u'', a_user_id = ''alice'',
           a_status = ''queued'', a_created_at = 0, a_flashcards = [], a_total_files = 0,
           a_languages = [], a_error = None\<rparr>]\<rparr>
      = Some \<lparr>a_id = ''job-1'', a_repo_url = ''u'', a_user_id = ''alice'',
           a_status = ''queued'', a_created_at = 0, a_flashcards = [], a_total_files = 0,
           a_languages = [], a_error = None\<rparr>"
    by (simp add: find_analysis_def)
  from get_analysis_answers [of "''nobody''" "\<lparr>ai_configs = [], analyses = []\<rparr>"] n
  have "http_status (get_analysis ''nobody'' \<lparr>ai_configs = [], analyses = []\<rparr>) = 500"
    by simp
  moreover from get_analysis_answers [of "''job-1''"] s
  have "http_status (get_analysis ''job-1''
        \<lparr>ai_configs = [],
         analyses = [\<lparr>a_id = ''job-1'', a_repo_url = ''u'', a_user_id = ''alice'',
           a_status = ''queued'', a_created_at = 0, a_flashcards = [], a_total_files = 0,
           a_languages = [], a_error = None\<rparr>]\<rparr>) = 200"
    by simp
  ultimately show ?thesis by simp
qed

text \<open>
  C6. A configuration whose model is not in the catalog under its provider is refused and
  the store is left as it was, so that reading any user's configuration afterwards gives what
  it gave before; for a user with no stored configuration that is \<open>NotConfigured\<close>.
\<close>

theorem save_ai_config_rejected:
  assumes "\<not> model_in_catalog (provider config) (model config)"
  shows "(\<exists>x. fst (save_ai_config now config d) = Inl x)
       \<and> snd (save_ai_config now config d) = d
       \<and> get_ai_config u (snd (save_ai_config now config d)) = get_ai_config u d
       \<and> (find_config (user_id config) d = None \<longrightarrow>
            get_ai_config (user_id config) (snd (save_ai_config now config d)) = Inr NotConfigured)"
  using assms by (simp add: save_ai_config_def except_500_def get_ai_config_def)

theorem save_ai_config_rejected_witness:
  "\<not> model_in_catalog ''openai'' ''gpt-5''
   \<and> snd (save_ai_config 7
        \<lparr>provider = ''openai'', model = ''gpt-5'', api_key = ''k'', user_id = ''bob''\<rparr>
        \<lparr>ai_configs = [], analyses = []\<rparr>) = \<lparr>ai_configs = [], analyses = []\<rparr>
   \<and> get_ai_config ''bob'' (snd (save_ai_config 7
        \<lparr>provider = ''openai'', model = ''gpt-5'', api_key = ''k'', user_id = ''bob''\<rparr>
        \<lparr>ai_configs = [], analyses = []\<rparr>)) = Inr NotConfigured"
proof -
  have m: "\<not> model_in_catalog
      (provider \<lparr>provider = ''openai'', model = ''gpt-5'', api_key = ''k'', user_id = ''bob''\<rparr>)
      (model \<lparr>provider = ''openai'', model = ''gpt-5'', api_key = ''k'', user_id = ''bob''\<rparr>)"
    by (simp add: model_in_catalog_def AI_MODELS_def)
  have f: "find_config
      (user_id \<lparr>provider = ''openai'', model = ''gpt-5'', api_key = ''k'', user_id = ''bob''\<rparr>)
      \<lparr>ai_configs = [], analyses = []\<rparr> = None"
    by (simp add: find_config_def)
  note t = save_ai_config_rejected [OF m, of 7 "\<lparr>ai_configs = [], analyses = []\<rparr>" "''bob''"]
  from t [THEN conjunct2, THEN conjunct1]
  have a: "snd (save_ai_config 7
        \<lparr>provider = ''openai'', model = ''gpt-5'', api_key = ''k'', user_id = ''bob''\<rparr>
        \<lparr>ai_configs = [], analyses = []\<rparr>) = \<lparr>ai_configs = [], analyses = []\<rparr>"
    by simp
  from t [THEN conjunct2, THEN conjunct2, THEN conjunct2] f
  have c: "get_ai_config ''bob'' (snd (save_ai_config 7
        \<lparr>provider = ''openai'', model = ''gpt-5'', api_key = ''k'', user_id = ''bob''\<rparr>
        \<lparr>ai_configs = [], analyses = []\<rparr>)) = Inr NotConfigured"
    by simp
  from m a c show ?thesis by simp
qed

text \<open>
  Where the user already has a configuration, the refused request leaves it in place and
  the next read answers \<open>Configured\<close>, not \<open>NotConfigured\<close>. The refusal itself is answered
  as 500.
\<close>

theorem save_ai_config_rejected_counterexample:
  "\<not> model_in_catalog ''openai'' ''gpt-5''
   \<and> http_status (fst (save_ai_config 7
        \<lparr>provider = ''openai'', model = ''gpt-5'', api_key = ''k'', user_id = ''alice''\<rparr>
        \<lparr>ai_configs = [\<lparr>cd_user_id = ''alice'', cd_provider = ''openai'', cd_model = ''gpt-4o'',
            cd_api_key = ''k'', cd_created_at = 1\<rparr>], analyses = []\<rparr>)) = 500
   \<and> get_ai_config ''alice'' (snd (save_ai_config 7
        \<lparr>provider = ''openai'', model = ''gpt-5'', api_key = ''k'', user_id = ''alice''\<rparr>
        \<lparr>ai_configs = [\<lparr>cd_user_id = ''alice'', cd_provider = ''openai'', cd_model = ''gpt-4o'',
            cd_api_key = ''k'', cd_created_at = 1\<rparr>], analyses = []\<rparr>))
       = Inr (Configured ''openai'' ''gpt-4o'' ''GPT-4o'')"
  by (simp add: save_ai_config_def model_in_catalog_def AI_MODELS_def except_500_def
        get_ai_config_def find_config_def)

section \<open>Parsing the repository URL\<close>

lemma parse_www_spec:
  "spec_parse_repo_url ''https://www.github.com/octocat/Hello-World'' = Some (''octocat'', ''Hello-World'')"
  by code_simp

lemma parse_www_code: "parse_repo_url ''https://www.github.com/octocat/Hello-World'' = None"
  by code_simp

lemma parse_github_io_code:
  "parse_repo_url ''https://github.com/octocat/octocat.github.io'' = Some (''octocat'', ''octocathub.io'')"
  by code_simp

lemma parse_github_io_spec:
  "spec_parse_repo_url ''https://github.com/octocat/octocat.github.io''
     = Some (''octocat'', ''octocat.github.io'')"
  by code_simp

text \<open>
  C8. The code takes \<^verbatim>\<open>.git\<close> out of the URL wherever it stands, not only at its end, before
  it looks for the pattern. A URL of the shape the specification names, with the host written
  \<^verbatim>\<open>www.github.com\<close>, loses the \<^verbatim>\<open>.git\<close> of \<^verbatim>\<open>.github\<close> and is refused as invalid; a repository
  named \<^verbatim>\<open>octocat.github.io\<close> is parsed under another name.
\<close>

theorem parse_repo_url_dot_git_anywhere:
  "spec_parse_repo_url ''https://www.github.com/octocat/Hello-World'' = Some (''octocat'', ''Hello-World'')
   \<and> parse_repo_url ''https://www.github.com/octocat/Hello-World'' = None
   \<and> fetch_github_repo e ''https://www.github.com/octocat/Hello-World''
       = Inl (ValueError ''Failed to fetch repository: Invalid GitHub repository URL'')
   \<and> spec_parse_repo_url ''https://github.com/octocat/octocat.github.io''
       = Some (''octocat'', ''octocat.github.io'')
   \<and> parse_repo_url ''https://github.com/octocat/octocat.github.io''
       = Some (''octocat'', ''octocathub.io'')"
  by (simp add: parse_www_spec parse_www_code parse_github_io_code parse_github_io_spec
        fetch_github_repo_def fetch_body_def)

section \<open>The fetch loop\<close>

lemma fetch_item_Some:
  assumes "fetch_item e owner repo item = Inr (Some f)"
  shows "answered e owner repo item \<and> f = fetched_file e owner repo item"
  using assms
  by (auto simp: fetch_item_def answered_def matching_def fetched_file_def decoded_text_def
        code_extensions_def Let_def
      split: if_splits response.splits option.splits sum.splits)

lemma fetch_item_None:
  assumes "fetch_item e owner repo item = Inr None"
  shows "\<not> answered e owner repo item"
  using assms
  by (auto simp: fetch_item_def answered_def matching_def Let_def
      split: if_splits response.splits option.splits sum.splits)

lemma fetch_loop_result:
  assumes "fetch_loop e owner repo files tree = Inr fs"
  shows "fs = files @ map (fetched_file e owner repo) (filter (answered e owner repo) tree)"
  using assms
proof (induction tree arbitrary: files)
  case Nil
  then show ?case by simp
next
  case (Cons item items)
  show ?case
  proof (cases "fetch_item e owner repo item")
    case (Inl x)
    with Cons.prems show ?thesis by simp
  next
    case (Inr opt)
    show ?thesis
    proof (cases opt)
      case None
      with Inr Cons.prems have "fetch_loop e owner repo files items = Inr fs" by simp
      from Cons.IH [OF this] fetch_item_None [of e owner repo item] Inr None
      show ?thesis by simp
    next
      case (Some f)
      with Inr Cons.prems have "fetch_loop e owner repo (files @ [f]) items = Inr fs" by simp
      from Cons.IH [OF this] fetch_item_Some [of e owner repo item f] Inr Some
      show ?thesis by simp
    qed
  qed
qed

lemma fetch_item_non_200:
  assumes "get_contents e (content_url owner repo (item_path item)) = Response status fd"
    and "status \<noteq> 200"
  shows "fetch_item e owner repo item = Inr None"
  using assms by (simp add: fetch_item_def Let_def)

lemma fetch_loop_append:
  "fetch_loop e owner repo files (xs @ ys) =
     (case fetch_loop e owner repo files xs of
        Inl x \<Rightarrow> Inl x
      | Inr fs \<Rightarrow> fetch_loop e owner repo fs ys)"
  by (induction xs arbitrary: files) (auto split: sum.splits option.splits)

lemma fetch_item_get_tree [simp]:
  "fetch_item (e\<lparr>get_tree := g\<rparr>) owner repo item = fetch_item e owner repo item"
  by (simp add: fetch_item_def Let_def
        cong: response.case_cong option.case_cong sum.case_cong if_cong)

lemma fetch_loop_get_tree [simp]:
  "fetch_loop (e\<lparr>get_tree := g\<rparr>) owner repo files tree = fetch_loop e owner repo files tree"
  by (induction tree arbitrary: files) (auto split: sum.splits option.splits)

lemma fetch_github_repo_Inr:
  assumes "fetch_github_repo e repo_url = Inr r"
  shows "\<exists>owner repo tree files.
           parse_repo_url repo_url = Some (owner, repo)
         \<and> get_tree e (api_url owner repo) = Response 200 tree
         \<and> fetch_loop e owner repo [] tree = Inr files
         \<and> r = \<lparr>rd_owner = owner, rd_repo = repo, rd_files = take 20 files,
                 rd_total_files = length files\<rparr>"
  using assms
  by (auto simp: fetch_github_repo_def fetch_body_def
      split: sum.splits option.splits response.splits if_splits prod.splits)

section \<open>The sample repository, fetched\<close>

lemma sample_parse: "parse_repo_url sample_url = Some (''octocat'', ''Hello-World'')"
  by code_simp

lemma sample_matching: "filter matching sample_tree =
    [\<lparr>item_type = ''blob'', item_path = ''src/app.py''\<rparr>,
     \<lparr>item_type = ''blob'', item_path = ''web/index.JS''\<rparr>]"
  by code_simp

lemma sample_fetch:
  "fetch_github_repo sample_env sample_url =
     Inr \<lparr>rd_owner = ''octocat'', rd_repo = ''Hello-World'',
          rd_files = [\<lparr>sf_path = ''src/app.py'', sf_content = ''print(1)'', sf_language = ''py''\<rparr>,
                      \<lparr>sf_path = ''web/index.JS'', sf_content = ''print(1)'', sf_language = ''js''\<rparr>],
          rd_total_files = 2\<rparr>"
  by code_simp

lemma sample_fetch_404:
  "fetch_github_repo sample_env_404 sample_url =
     Inr \<lparr>rd_owner = ''octocat'', rd_repo = ''Hello-World'',
          rd_files = [\<lparr>sf_path = ''web/index.JS'', sf_content = ''print(1)'', sf_language = ''js''\<rparr>],
          rd_total_files = 1\<rparr>"
  by code_simp

lemma sample_fetch_raise:
  "fetch_github_repo sample_env_raise sample_url =
     Inl (ValueError ''Failed to fetch repository: Connection timeout'')"
  by code_simp

lemma sample_tree_404:
  "get_tree sample_env_404 (api_url ''octocat'' ''Hello-World'') = Response 200 sample_tree"
  by (simp add: sample_env_404_def sample_env_def)

section \<open>The files and the count a fetch returns\<close>

text \<open>
  C2. A fetch that succeeds has parsed the URL and got the tree with status 200. Its files
  are the first 20 of the answered matching entries, in tree order, each with its content cut
  to the first 5000 characters (\<open>fetched_file\<close>); \<open>total_files\<close> is the number of answered
  matching entries before that cut to 20. A matching entry whose contents call was skipped
  is not counted.
\<close>

theorem fetch_github_repo_files:
  assumes "fetch_github_repo e repo_url = Inr r"
  shows "\<exists>owner repo tree.
           parse_repo_url repo_url = Some (owner, repo)
         \<and> get_tree e (api_url owner repo) = Response 200 tree
         \<and> rd_files r = take 20 (map (fetched_file e owner repo) (filter (answered e owner repo) tree))
         \<and> rd_total_files r = length (filter (answered e owner repo) tree)
         \<and> length (rd_files r) \<le> 20
         \<and> length (rd_files r) \<le> rd_total_files r"
proof -
  from fetch_github_repo_Inr [OF assms] obtain owner repo tree files where
    p: "parse_repo_url repo_url = Some (owner, repo)" and
    t: "get_tree e (api_url owner repo) = Response 200 tree" and
    l: "fetch_loop e owner repo [] tree = Inr files" and
    r: "r = \<lparr>rd_owner = owner, rd_repo = repo, rd_files = take 20 files,
              rd_total_files = length files\<rparr>"
    by blast
  from fetch_loop_result [OF l]
  have "files = map (fetched_file e owner repo) (filter (answered e owner repo) tree)"
    by simp
  with p t r show ?thesis by auto
qed

theorem fetch_github_repo_files_witness:
  "\<exists>r. fetch_github_repo sample_env_404 sample_url = Inr r
     \<and> (\<exists>owner repo tree.
           parse_repo_url sample_url = Some (owner, repo)
         \<and> get_tree sample_env_404 (api_url owner repo) = Response 200 tree
         \<and> rd_files r = take 20 (map (fetched_file sample_env_404 owner repo)
                                    (filter (answered sample_env_404 owner repo) tree))
         \<and> rd_total_files r = length (filter (answered sample_env_404 owner repo) tree)
         \<and> length (rd_files r) \<le> 20
         \<and> length (rd_files r) \<le> rd_total_files r)"
  using fetch_github_repo_files [OF sample_fetch_404] sample_fetch_404 by blast

text \<open>
  The count is not that of the matching entries of the tree: the sample tree has two, the
  contents call for one is answered 404, and \<open>total_files\<close> is 1.
\<close>

theorem fetch_github_repo_files_counterexample:
  "get_tree sample_env_404 (api_url ''octocat'' ''Hello-World'') = Response 200 sample_tree
   \<and> length (filter matching sample_tree) = 2
   \<and> fetch_github_repo sample_env_404 sample_url =
       Inr \<lparr>rd_owner = ''octocat'', rd_repo = ''Hello-World'',
            rd_files = [\<lparr>sf_path = ''web/index.JS'', sf_content = ''print(1)'', sf_language = ''js''\<rparr>],
            rd_total_files = 1\<rparr>"
  by (simp add: sample_tree_404 sample_matching sample_fetch_404)

section \<open>Entries that are skipped\<close>

text \<open>
  C9. A tree entry whose contents call is answered with a status other than 200 is skipped:
  the fetch gives what it gives on the tree without that entry.
\<close>

theorem fetch_skips_non_200:
  assumes "parse_repo_url repo_url = Some (owner, repo)"
    and "get_tree e (api_url owner repo) = Response 200 (xs @ item # ys)"
    and "get_contents e (content_url owner repo (item_path item)) = Response status fd"
    and "status \<noteq> 200"
  shows "fetch_github_repo e repo_url =
           fetch_github_repo (e\<lparr>get_tree := \<lambda>url. Response 200 (xs @ ys)\<rparr>) repo_url"
proof -
  from fetch_item_non_200 [OF assms(3,4)]
  have "fetch_loop e owner repo [] (xs @ item # ys) = fetch_loop e owner repo [] (xs @ ys)"
    by (simp add: fetch_loop_append split: sum.splits)
  with assms(1,2) show ?thesis
    by (simp add: fetch_github_repo_def fetch_body_def)
qed

theorem fetch_skips_non_200_witness:
  "fetch_github_repo sample_env_404 sample_url =
     fetch_github_repo
       (sample_env_404\<lparr>get_tree := \<lambda>url. Response 200
           ([\<lparr>item_type = ''tree'', item_path = ''src''\<rparr>]
            @ [\<lparr>item_type = ''blob'', item_path = ''README.md''\<rparr>,
               \<lparr>item_type = ''blob'', item_path = ''web/index.JS''\<rparr>])\<rparr>)
       sample_url"
proof -
  have t: "get_tree sample_env_404 (api_url ''octocat'' ''Hello-World'') =
      Response 200 ([\<lparr>item_type = ''tree'', item_path = ''src''\<rparr>]
        @ \<lparr>item_type = ''blob'', item_path = ''src/app.py''\<rparr>
        # [\<lparr>item_type = ''blob'', item_path = ''README.md''\<rparr>,
           \<lparr>item_type = ''blob'', item_path = ''web/index.JS''\<rparr>])"
    by (simp add: sample_tree_404 sample_tree_def)
  have c: "get_contents sample_env_404
      (content_url ''octocat'' ''Hello-World''
         (item_path \<lparr>item_type = ''blob'', item_path = ''src/app.py''\<rparr>))
      = Response 404 \<lparr>fd_encoding = None, fd_content = None\<rparr>"
    by (simp add: sample_env_404_def sample_env_def)
  have n: "(404::nat) \<noteq> 200" by simp
  show ?thesis by (rule fetch_skips_non_200 [OF sample_parse t c n])
qed

text \<open>
  A contents call that raises is not skipped: the exception leaves the loop and the whole
  fetch fails, though the other file of the tree could be fetched.
\<close>

theorem fetch_skips_non_200_counterexample:
  "matching \<lparr>item_type = ''blob'', item_path = ''src/app.py''\<rparr>
   \<and> get_contents sample_env_raise (content_url ''octocat'' ''Hello-World'' ''src/app.py'')
       = Raised (ClientError ''Connection timeout'')
   \<and> fetch_github_repo sample_env_raise sample_url
       = Inl (ValueError ''Failed to fetch repository: Connection timeout'')"
proof -
  have "matching \<lparr>item_type = ''blob'', item_path = ''src/app.py''\<rparr>"
    by code_simp
  moreover have "get_contents sample_env_raise (content_url ''octocat'' ''Hello-World'' ''src/app.py'')
       = Raised (ClientError ''Connection timeout'')"
    by (simp add: sample_env_raise_def sample_env_def)
  ultimately show ?thesis using sample_fetch_raise by simp
qed

text \<open>
  Likewise a 200 answer that names the \<^verbatim>\<open>base64\<close> encoding and holds no \<^verbatim>\<open>content\<close>: the lookup
  \<^verbatim>\<open>file_data['content']\<close> raises and the whole fetch fails.
\<close>

lemma sample_fetch_no_content:
  "fetch_github_repo sample_env_no_content sample_url =
     Inl (ValueError (''Failed to fetch repository: '' @ [CHR 0x27] @ ''content'' @ [CHR 0x27]))"
  by code_simp

section \<open>Grouping by language\<close>

lemma set_first_seen [simp]: "set (first_seen xs) = set xs"
  by (induction xs) auto

lemma distinct_first_seen [simp]: "distinct (first_seen xs)"
  by (induction xs) auto

lemma first_seen_snoc:
  "first_seen (xs @ [x]) = (if x \<in> set xs then first_seen xs else first_seen xs @ [x])"
  by (induction xs) auto

lemma add_file_new:
  assumes "sf_language f \<notin> set ls"
  shows "add_file (map (\<lambda>l. (l, g l)) ls) f = map (\<lambda>l. (l, g l)) ls @ [(sf_language f, [f])]"
  using assms by (induction ls) auto

lemma add_file_old:
  assumes "sf_language f \<in> set ls" and "distinct ls"
  shows "add_file (map (\<lambda>l. (l, g l)) ls) f =
           map (\<lambda>l. (l, if l = sf_language f then g l @ [f] else g l)) ls"
  using assms
proof (induction ls)
  case Nil
  then show ?case by simp
next
  case (Cons l ls)
  show ?case
  proof (cases "l = sf_language f")
    case True
    with Cons.prems have "sf_language f \<notin> set ls" by simp
    then have "map (\<lambda>l. (l, if l = sf_language f then g l @ [f] else g l)) ls =
        map (\<lambda>l. (l, g l)) ls"
      by (intro map_cong) auto
    with True show ?thesis by simp
  next
    case False
    with Cons show ?thesis by simp
  qed
qed

lemma group_by_language_snoc:
  "group_by_language (files @ [f]) = add_file (group_by_language files) f"
  by (simp add: group_by_language_def)

lemma group_by_language_eq:
  "group_by_language files =
     map (\<lambda>l. (l, filter (\<lambda>f. sf_language f = l) files)) (first_seen (map sf_language files))"
proof (induction files rule: rev_induct)
  case Nil
  then show ?case by (simp add: group_by_language_def)
next
  case (snoc f files)
  let ?ls = "first_seen (map sf_language files)"
  show ?case
  proof (cases "sf_language f \<in> set (map sf_language files)")
    case True
    then have "sf_language f \<in> set ?ls" by simp
    from add_file_old [OF this distinct_first_seen,
        of "\<lambda>l. filter (\<lambda>f. sf_language f = l) files"] snoc.IH True
    show ?thesis
      by (simp add: group_by_language_snoc first_seen_snoc)
  next
    case False
    then have n: "sf_language f \<notin> set ?ls" by simp
    from False have e: "filter (\<lambda>h. sf_language h = sf_language f) files = []"
      by (auto simp: filter_empty_conv image_iff)
    have "map (\<lambda>l. (l, filter (\<lambda>h. sf_language h = l) (files @ [f]))) ?ls =
        map (\<lambda>l. (l, filter (\<lambda>h. sf_language h = l) files)) ?ls"
      using n by (intro map_cong) auto
    with add_file_new [OF n, of "\<lambda>l. filter (\<lambda>f. sf_language f = l) files"] snoc.IH False e
    show ?thesis
      by (simp add: group_by_language_snoc first_seen_snoc)
  qed
qed

section \<open>The cards\<close>

lemma file_cards_strip:
  "map (\<lambda>c. c\<lparr>fc_id := []\<rparr>) (file_cards u n lang fs) = map (file_card [] lang) fs"
  by (induction fs arbitrary: n) (simp_all add: file_card_def)

lemma length_file_cards [simp]: "length (file_cards u n lang fs) = length fs"
  by (induction fs arbitrary: n) simp_all

lemma file_cards_ids: "map fc_id (file_cards u n lang fs) = map u [n..<n + length fs]"
proof (induction fs arbitrary: n)
  case Nil
  then show ?case by simp
next
  case (Cons f fs)
  have "[n..<n + length (f # fs)] = n # [Suc n..<Suc n + length fs]"
    by (subst upt_rec) simp
  with Cons.IH [of "Suc n"] show ?case by (simp add: file_card_def)
qed

lemma expected_cards_eq:
  assumes "fs \<noteq> []"
  shows "expected_cards lang fs =
           architecture_card [] lang fs # map (file_card [] lang) (take 3 fs)"
  using assms
  by (cases fs) (simp_all add: expected_cards_def architecture_card_def file_card_def)

lemma language_cards_strip:
  assumes "\<forall>g \<in> set gs. snd g \<noteq> []"
  shows "map (\<lambda>c. c\<lparr>fc_id := []\<rparr>) (language_cards u n gs) =
           concat (map (\<lambda>g. expected_cards (fst g) (snd g)) gs)"
  using assms
proof (induction gs arbitrary: n)
  case Nil
  then show ?case by simp
next
  case (Cons g gs)
  obtain lang fs where g: "g = (lang, fs)" by (cases g)
  with Cons.prems have "fs \<noteq> []" by simp
  from expected_cards_eq [OF this, of lang] Cons g show ?case
    by (simp add: file_cards_strip architecture_card_def)
qed

lemma upt_three_parts:
  "[n..<n + (Suc k + m)] = n # [Suc n..<Suc n + k] @ [Suc n + k..<Suc n + k + m]"
proof -
  have b: "n + (Suc k + m) = Suc n + k + m"
    by simp
  have c: "[Suc n..<Suc n + k + m] = [Suc n..<Suc n + k] @ [Suc n + k..<Suc n + k + m]"
    by (rule upt_add_eq_append) simp
  have "[n..<n + (Suc k + m)] = n # [Suc n..<n + (Suc k + m)]"
    by (rule upt_conv_Cons) simp
  also have "\<dots> = n # [Suc n..<Suc n + k + m]"
    by (simp only: b)
  also have "\<dots> = n # [Suc n..<Suc n + k] @ [Suc n + k..<Suc n + k + m]"
    by (simp only: c)
  finally show ?thesis .
qed

lemma language_cards_ids:
  "map fc_id (language_cards u n gs) = map u [n..<n + length (language_cards u n gs)]"
proof (induction gs arbitrary: n)
  case Nil
  then show ?case by simp
next
  case (Cons g gs)
  obtain lang fs where g: "g = (lang, fs)" by (cases g)
  let ?k = "length (take 3 fs)"
  let ?m = "length (language_cards u (Suc n + ?k) gs)"
  have "map fc_id (language_cards u n (g # gs)) =
      u n # map u [Suc n..<Suc n + ?k] @ map u [Suc n + ?k..<Suc n + ?k + ?m]"
    using Cons.IH [of "Suc n + ?k"] g
    by (simp add: file_cards_ids architecture_card_def del: length_take)
  also have "\<dots> = map u [n..<n + (Suc ?k + ?m)]"
    by (simp only: upt_three_parts list.map map_append)
  also have "Suc ?k + ?m = length (language_cards u n (g # gs))"
    using g by (simp del: length_take)
  finally show ?case .
qed

lemma groups_not_empty:
  "\<forall>g \<in> set (map (\<lambda>l. (l, filter (\<lambda>f. sf_language f = l) files))
       (first_seen (map sf_language files))). snd g \<noteq> []"
  by (auto simp: filter_empty_conv)

lemma files_category_not_architecture: "upper lang @ '' Files'' \<noteq> ''Architecture''"
proof
  assume "upper lang @ '' Files'' = ''Architecture''"
  then have "last (upper lang @ '' Files'') = last ''Architecture''"
    by (rule arg_cong)
  then show False by simp
qed

lemma expected_cards_one_architecture:
  "length (filter (\<lambda>c. fc_category c = ''Architecture'') (expected_cards lang fs)) = 1"
  using files_category_not_architecture [of lang]
  by (simp add: expected_cards_def filter_map comp_def)

lemma count_in_concat:
  assumes "\<forall>l \<in> set ls. length (filter P (f l)) = 1"
  shows "length (filter P (concat (map f ls))) = length ls"
  using assms by (induction ls) simp_all

lemma category_strip:
  "filter (\<lambda>c. fc_category c = k) (map (\<lambda>c. c\<lparr>fc_id := []\<rparr>) cs) =
     map (\<lambda>c. c\<lparr>fc_id := []\<rparr>) (filter (\<lambda>c. fc_category c = k) cs)"
  by (simp add: filter_map comp_def)

text \<open>
  C1. The cards of the default analysis are, language by language in the order in which the
  languages are first seen, the cards \<open>expected_cards\<close> gives for the language and its files in
  their order: one card of category Architecture and difficulty Medium, naming the language,
  the number of its files and the base names of its first three, with the first 200
  characters of the first file as snippet; then, for each of the first three files, a card of
  category \<^verbatim>\<open><LANG> Files\<close> and difficulty Easy with the first 300 characters of the file as
  snippet. The ids are the successive \<^verbatim>\<open>uuid4\<close> values, and there is exactly one Architecture
  card for each language.
\<close>

theorem analyze_with_ai_cards:
  "map (\<lambda>c. c\<lparr>fc_id := []\<rparr>) (analyze_with_ai u files config) =
     concat (map (\<lambda>lang. expected_cards lang (filter (\<lambda>f. sf_language f = lang) files))
               (first_seen (map sf_language files)))
   \<and> map fc_id (analyze_with_ai u files config) =
       map u [0..<length (analyze_with_ai u files config)]
   \<and> length (filter (\<lambda>c. fc_category c = ''Architecture'') (analyze_with_ai u files config)) =
       length (first_seen (map sf_language files))"
proof -
  let ?ls = "first_seen (map sf_language files)"
  let ?of = "\<lambda>l. filter (\<lambda>f. sf_language f = l) files"
  let ?strip = "\<lambda>c. c\<lparr>fc_id := []\<rparr>"
  have cards: "map ?strip (analyze_with_ai u files config) =
      concat (map (\<lambda>lang. expected_cards lang (?of lang)) ?ls)"
    using language_cards_strip [OF groups_not_empty, of u 0 files]
    by (simp add: analyze_with_ai_def group_by_language_eq comp_def)
  have ids: "map fc_id (analyze_with_ai u files config) =
      map u [0..<length (analyze_with_ai u files config)]"
    using language_cards_ids [of u 0 "group_by_language files"]
    by (simp add: analyze_with_ai_def)
  have "length (filter (\<lambda>c. fc_category c = ''Architecture'') (analyze_with_ai u files config)) =
      length (filter (\<lambda>c. fc_category c = ''Architecture'')
        (map ?strip (analyze_with_ai u files config)))"
    by (simp only: category_strip length_map)
  also have "\<dots> = length ?ls"
    unfolding cards
    by (rule count_in_concat) (simp add: expected_cards_one_architecture)
  finally show ?thesis using cards ids by simp
qed

section \<open>Reading the store after a write\<close>

lemma find_update_one:
  assumes "\<And>a. a_id (f a) = a_id a"
  shows "find (\<lambda>a. a_id a = j) (update_one i f as) =
           (if j = i then map_option f (find (\<lambda>a. a_id a = i) as)
            else find (\<lambda>a. a_id a = j) as)"
  using assms by (induction as) auto

lemma find_analysis_update:
  assumes "\<And>a. a_id (f a) = a_id a"
  shows "find_analysis j (update_analysis i f d) =
           (if j = i then map_option f (find_analysis i d) else find_analysis j d)"
  using find_update_one [of f j i "analyses d", OF assms]
  by (simp add: find_analysis_def update_analysis_def)

lemma find_config_update [simp]: "find_config u (update_analysis i f d) = find_config u d"
  by (simp add: find_config_def update_analysis_def)

lemma find_analysis_set_processing:
  "find_analysis j (set_processing i d) =
     (if j = i then map_option (\<lambda>a. a\<lparr>a_status := ''processing''\<rparr>) (find_analysis i d)
      else find_analysis j d)"
  unfolding set_processing_def by (rule find_analysis_update) simp

lemma find_config_set_processing [simp]: "find_config u (set_processing i d) = find_config u d"
  by (simp add: set_processing_def)

lemma find_analysis_record_failure:
  "find_analysis j (record_outcome i (Inl x) d) =
     (if j = i
      then map_option (\<lambda>a. a\<lparr>a_status := ''failed'', a_error := Some (str_exn x)\<rparr>) (find_analysis i d)
      else find_analysis j d)"
proof -
  have "record_outcome i (Inl x) d =
      update_analysis i (\<lambda>a. a\<lparr>a_status := ''failed'', a_error := Some (str_exn x)\<rparr>) d"
    by (simp add: record_outcome_def)
  then show ?thesis by (simp add: find_analysis_update)
qed

lemma find_analysis_record_success:
  "find_analysis j (record_outcome i (Inr (cards, n, langs)) d) =
     (if j = i
      then map_option (\<lambda>a. a\<lparr>a_status := ''completed'', a_flashcards := cards,
              a_total_files := n, a_languages := langs\<rparr>) (find_analysis i d)
      else find_analysis j d)"
proof -
  have "record_outcome i (Inr (cards, n, langs)) d =
      update_analysis i (\<lambda>a. a\<lparr>a_status := ''completed'', a_flashcards := cards,
              a_total_files := n, a_languages := langs\<rparr>) d"
    by (simp add: record_outcome_def)
  then show ?thesis by (simp add: find_analysis_update)
qed

section \<open>A run that fails\<close>

lemma fetch_error_text:
  assumes "fetch_github_repo e repo_url = Inl x"
  shows "str_exn x \<noteq> []"
  using assms by (auto simp: fetch_github_repo_def split: sum.splits)

lemma run_pipeline_Inl:
  assumes "run_pipeline e repo_url uid d = Inl x"
  shows "(find_config uid d = None \<or> fetch_github_repo e repo_url = Inl x) \<and> str_exn x \<noteq> []"
proof (cases "find_config uid d")
  case None
  with assms show ?thesis by (auto simp: run_pipeline_def)
next
  case (Some config)
  with assms have x: "fetch_github_repo e repo_url = Inl x"
    by (simp add: run_pipeline_def split: sum.splits)
  with fetch_error_text [OF x] show ?thesis by simp
qed

lemma run_pipeline_fails:
  assumes "find_config uid d = None \<or> (\<exists>x. fetch_github_repo e repo_url = Inl x)"
  shows "\<exists>x. run_pipeline e repo_url uid d = Inl x"
  using assms by (auto simp: run_pipeline_def split: option.splits)

text \<open>
  C4. The \<^verbatim>\<open>try\<close> block of a run raises only when the configuration lookup or the repository
  fetch fails (the analysis step raises nothing on the files a fetch returns). When it raises,
  the job is left with status \<^verbatim>\<open>failed\<close>, the text of the exception as its error, which is not
  empty, and the empty flashcard list it was created with.
\<close>

theorem failure_is_recorded:
  assumes "find_analysis i d = Some a"
    and "a_flashcards a = []"
    and "run_pipeline e repo_url uid (set_processing i d) = Inl x"
  shows "(find_config uid d = None \<or> fetch_github_repo e repo_url = Inl x)
       \<and> (\<exists>a'. find_analysis i (process_repository_analysis e repo_url uid i d) = Some a'
           \<and> a_status a' = ''failed'' \<and> a_error a' = Some (str_exn x) \<and> str_exn x \<noteq> []
           \<and> a_flashcards a' = [])"
proof -
  from run_pipeline_Inl [OF assms(3)]
  have src: "find_config uid d = None \<or> fetch_github_repo e repo_url = Inl x"
    and m: "str_exn x \<noteq> []"
    by simp_all
  from assms(1) have "find_analysis i (set_processing i d) = Some (a\<lparr>a_status := ''processing''\<rparr>)"
    by (simp add: find_analysis_set_processing)
  with assms(3) have "find_analysis i (process_repository_analysis e repo_url uid i d) =
      Some (a\<lparr>a_status := ''failed'', a_error := Some (str_exn x)\<rparr>)"
    by (simp add: process_repository_analysis_def find_analysis_record_failure)
  with src m assms(2) show ?thesis by simp
qed

lemma sample_job_found: "find_analysis ''job-1'' sample_db = Some sample_job"
  by (simp add: find_analysis_def sample_db_def sample_job_def)

lemma sample_config_found: "find_config ''alice'' sample_db = Some sample_config"
  by (simp add: find_config_def sample_db_def sample_config_def)

theorem failure_is_recorded_witness:
  "\<exists>a'. find_analysis ''job-1''
        (process_repository_analysis sample_env_raise sample_url ''alice'' ''job-1'' sample_db) = Some a'
     \<and> a_status a' = ''failed''
     \<and> a_error a' = Some ''Failed to fetch repository: Connection timeout''
     \<and> a_flashcards a' = []"
proof -
  have f: "a_flashcards sample_job = []"
    by (simp add: sample_job_def)
  have x: "run_pipeline sample_env_raise sample_url ''alice'' (set_processing ''job-1'' sample_db) =
      Inl (ValueError ''Failed to fetch repository: Connection timeout'')"
    using sample_fetch_raise sample_config_found by (simp add: run_pipeline_def)
  from failure_is_recorded [OF sample_job_found f x] show ?thesis by simp
qed

section \<open>A repository without source files\<close>

lemma fetch_loop_no_match:
  assumes "filter matching tree = []"
  shows "fetch_loop e owner repo files tree = Inr files"
  using assms
proof (induction tree)
  case Nil
  then show ?case by simp
next
  case (Cons item items)
  then have "\<not> matching item" and "filter matching items = []"
    by (simp_all split: if_splits)
  then have "fetch_item e owner repo item = Inr None"
    by (auto simp: fetch_item_def matching_def Let_def)
  with Cons \<open>filter matching items = []\<close> show ?case by simp
qed

text \<open>
  C10. When no entry of the tree matches, the fetch succeeds with no files and count 0, the
  analysis of no files gives no cards, and the run leaves the job completed with no
  flashcards, no languages and \<open>total_files\<close> 0.
\<close>

theorem empty_repository_completes:
  assumes "find_config uid d = Some config"
    and "find_analysis i d = Some a"
    and "parse_repo_url repo_url = Some (owner, repo)"
    and "get_tree e (api_url owner repo) = Response 200 tree"
    and "filter matching tree = []"
  shows "fetch_github_repo e repo_url =
           Inr \<lparr>rd_owner = owner, rd_repo = repo, rd_files = [], rd_total_files = 0\<rparr>
       \<and> analyze_with_ai (uuid4 e) [] config = []
       \<and> find_analysis i (process_repository_analysis e repo_url uid i d) =
           Some (a\<lparr>a_status := ''completed'', a_flashcards := [], a_total_files := 0,
                   a_languages := []\<rparr>)"
proof -
  from fetch_loop_no_match [OF assms(5)] assms(3,4)
  have fetch: "fetch_github_repo e repo_url =
      Inr \<lparr>rd_owner = owner, rd_repo = repo, rd_files = [], rd_total_files = 0\<rparr>"
    by (simp add: fetch_github_repo_def fetch_body_def)
  have cards: "analyze_with_ai (uuid4 e) [] config = []"
    by (simp add: analyze_with_ai_def group_by_language_def)
  from fetch cards assms(1)
  have "run_pipeline e repo_url uid (set_processing i d) = Inr ([], 0, [])"
    by (simp add: run_pipeline_def)
  with assms(2)
  have "find_analysis i (process_repository_analysis e repo_url uid i d) =
      Some (a\<lparr>a_status := ''completed'', a_flashcards := [], a_total_files := 0,
              a_languages := []\<rparr>)"
    by (simp add: process_repository_analysis_def find_analysis_record_success
          find_analysis_set_processing)
  with fetch cards show ?thesis by simp
qed

theorem empty_repository_completes_witness:
  "fetch_github_repo sample_env_docs sample_url =
     Inr \<lparr>rd_owner = ''octocat'', rd_repo = ''Hello-World'', rd_files = [], rd_total_files = 0\<rparr>
   \<and> find_analysis ''job-1''
        (process_repository_analysis sample_env_docs sample_url ''alice'' ''job-1'' sample_db) =
       Some (sample_job\<lparr>a_status := ''completed'', a_flashcards := [], a_total_files := 0,
               a_languages := []\<rparr>)"
proof -
  have t: "get_tree sample_env_docs (api_url ''octocat'' ''Hello-World'') = Response 200
       [\<lparr>item_type = ''blob'', item_path = ''README.md''\<rparr>,
        \<lparr>item_type = ''tree'', item_path = ''lib.py''\<rparr>,
        \<lparr>item_type = ''blob'', item_path = ''.py''\<rparr>]"
    by (simp add: sample_env_docs_def)
  have m: "filter matching
       [\<lparr>item_type = ''blob'', item_path = ''README.md''\<rparr>,
        \<lparr>item_type = ''tree'', item_path = ''lib.py''\<rparr>,
        \<lparr>item_type = ''blob'', item_path = ''.py''\<rparr>] = []"
    by code_simp
  from empty_repository_completes [OF sample_config_found sample_job_found sample_parse t m]
  show ?thesis by simp
qed

section \<open>The store call of a task\<close>



lemma status_step_refl [simp]: "status_step x x"
  by (simp add: status_step_def)






section \<open>One step of the service\<close>








section \<open>Requests\<close>










lemma save_keeps_jobs [simp]:
  "find_analysis j (sys_db (save c now config s)) = find_analysis j (sys_db s)"
  by (simp add: save_def save_ai_config_def find_analysis_def Let_def)

lemma save_tasks [simp]: "sys_tasks (save c now config s) = sys_tasks s"
  by (simp add: save_def)

lemma save_keeps_task_ok [simp]:
  "task_ok strict (sys_db (save c now config s)) = task_ok strict (sys_db s)"
  by (rule ext) (simp add: task_ok_def)

section \<open>Any event\<close>




section \<open>Sequences of events\<close>






text \<open>The steps of a task whose store calls all return are \<^verbatim>\<open>process_repository_analysis\<close>.\<close>

lemma advance_thrice:
  assumes "sys_tasks s = [((repo_url, uid, i), Scheduled)]"
  shows "sys_db (advance Returns e 0 (advance Returns e 0 (advance Returns e 0 s))) =
           process_repository_analysis e repo_url uid i (sys_db s)"
  using assms
  by (simp add: advance_def task_step_def process_repository_analysis_def Let_def
      split: sum.splits)

section \<open>The path of a job's status\<close>




lemma sample_started:
  "find_analysis ''job-1''
     (sys_db (apply_event sample_advance (run [sample_save, sample_submit] (initial empty_db)))) =
     Some (sample_job\<lparr>a_status := ''processing''\<rparr>)"
  by code_simp


lemma sample_failed_from_queued:
  "find_analysis ''job-1''
     (sys_db (apply_event sample_advance
        (run [sample_save, sample_submit, sample_store_down] (initial empty_db)))) =
     Some (sample_job\<lparr>a_status := ''failed'', a_error := Some ''connection lost''\<rparr>)"
  by code_simp





text \<open>
  Why the acknowledgements matter: when the last write of the \<^verbatim>\<open>try\<close> block is applied and
  raises all the same, the job is \<^verbatim>\<open>completed\<close> and the \<^verbatim>\<open>except\<close> clause then makes it \<^verbatim>\<open>failed\<close>.
\<close>

lemma sample_lost_ack:
  "map_option a_status (find_analysis ''job-1''
     (sys_db (run [sample_save, sample_submit, sample_advance, sample_advance,
        Advance (RaisesWritten (StoreError ''timed out'')) sample_env 0] (initial empty_db)))) =
     Some ''completed''
   \<and> map_option a_status (find_analysis ''job-1''
     (sys_db (run [sample_save, sample_submit, sample_advance, sample_advance,
        Advance (RaisesWritten (StoreError ''timed out'')) sample_env 0, sample_advance]
        (initial empty_db)))) =
     Some ''failed''"
  by code_simp

end
